theory Spec2Isabelle
  imports Complex_Main
begin

section \<open>The share-page player (\<open>ShareVideo\<close>) as a transition system\<close>

text \<open>
  The component under study is the React function component \<open>ShareVideo\<close>. It keeps six
  pieces of React state, holds one ref (\<open>video2Ref\<close>) to the media element rendered by
  \<open>VideoPlayer\<close>, registers DOM listeners from effects and reacts to clicks on its controls.

  The embedding is a state record and a \<open>step\<close> function: one step is one DOM event or one
  settled promise, handled by the handler the source registers, followed by React's commit
  (re-render and the effects whose dependencies changed).
\<close>

subsection \<open>JavaScript numbers\<close>

text \<open>
  A JavaScript \<open>number\<close> is an IEEE double. Finite values are modelled as reals (rounding
  and overflow of finite results are not modelled); the three non-finite values are kept,
  because the source divides by a width that may be zero, reads \<open>clientX\<close> from touch events
  (where it is \<open>undefined\<close>, so the subtraction gives \<open>NaN\<close>) and because assigning a
  non-finite value to \<open>currentTime\<close> of a media element throws. The sign of zero is not
  modelled: every divisor in the source is a layout width or is guarded by \<open>> 0\<close>.
\<close>

datatype number = Num real | Infinity | NegInfinity | NaN

fun jsSub :: "number \<Rightarrow> number \<Rightarrow> number" where
  "jsSub (Num a) (Num b) = Num (a - b)"
| "jsSub NaN _ = NaN"
| "jsSub _ NaN = NaN"
| "jsSub Infinity Infinity = NaN"
| "jsSub NegInfinity NegInfinity = NaN"
| "jsSub Infinity _ = Infinity"
| "jsSub NegInfinity _ = NegInfinity"
| "jsSub _ Infinity = NegInfinity"
| "jsSub _ NegInfinity = Infinity"

fun jsDiv :: "number \<Rightarrow> number \<Rightarrow> number" where
  "jsDiv (Num a) (Num b) =
     (if b = 0 then (if a = 0 then NaN else if 0 < a then Infinity else NegInfinity)
      else Num (a / b))"
| "jsDiv NaN _ = NaN"
| "jsDiv _ NaN = NaN"
| "jsDiv (Num a) _ = Num 0"
| "jsDiv Infinity (Num b) = (if 0 \<le> b then Infinity else NegInfinity)"
| "jsDiv NegInfinity (Num b) = (if 0 \<le> b then NegInfinity else Infinity)"
| "jsDiv _ _ = NaN"

fun jsMul :: "number \<Rightarrow> number \<Rightarrow> number" where
  "jsMul (Num a) (Num b) = Num (a * b)"
| "jsMul NaN _ = NaN"
| "jsMul _ NaN = NaN"
| "jsMul (Num a) Infinity = (if a = 0 then NaN else if 0 < a then Infinity else NegInfinity)"
| "jsMul (Num a) NegInfinity = (if a = 0 then NaN else if 0 < a then NegInfinity else Infinity)"
| "jsMul Infinity (Num b) = (if b = 0 then NaN else if 0 < b then Infinity else NegInfinity)"
| "jsMul NegInfinity (Num b) = (if b = 0 then NaN else if 0 < b then NegInfinity else Infinity)"
| "jsMul Infinity Infinity = Infinity"
| "jsMul NegInfinity NegInfinity = Infinity"
| "jsMul _ _ = NegInfinity"

fun jsGt :: "number \<Rightarrow> number \<Rightarrow> bool" where
  "jsGt (Num a) (Num b) = (b < a)"
| "jsGt NaN _ = False"
| "jsGt _ NaN = False"
| "jsGt Infinity Infinity = False"
| "jsGt Infinity _ = True"
| "jsGt _ Infinity = False"
| "jsGt NegInfinity _ = False"
| "jsGt _ NegInfinity = True"

fun isFinite :: "number \<Rightarrow> bool" where
  "isFinite (Num _) = True"
| "isFinite _ = False"

subsection \<open>The media element and what the component does to it\<close>

text \<open>
  The element behind \<open>video2Ref\<close>: the three properties the component reads. The browser
  owns \<open>duration\<close> and \<open>elCurrentTime\<close>; an event carries the value the property has when the
  event is dispatched.
\<close>

record videoElement =
  duration :: number
  elCurrentTime :: number
  muted :: bool

text \<open>Method calls and property assignments the component makes on the element, in order.\<close>

datatype command = Play | Pause | SetCurrentTime number | SetMuted bool

text \<open>
  Every \<open>play()\<close> call returns a promise. The call sites differ in what they do when it
  rejects, so a pending promise is identified by its call site:
  line 63 (awaited in \<open>handlePlayPauseClick\<close>, inside \<open>try/catch\<close>),
  line 88 (\<open>syncPlayback\<close>, with \<open>.catch\<close>),
  line 135 (\<open>handleSeekMouseUp\<close>, no handler),
  line 166 (the \<open>[isPlaying]\<close> effect, no handler),
  line 175 (\<open>syncPlay\<close>, with \<open>.catch\<close>).
\<close>

datatype play_origin =
  FromClick | FromSyncPlayback | FromSeekMouseUp | FromIsPlayingEffect | FromSyncPlay

datatype fs_request = RequestFullscreen | ExitFullscreen

datatype outcome = Fulfilled | Rejected

datatype console_entry = ConsoleLog string | ConsoleError string

text \<open>
  What \<open>handleSeekMouseUp\<close> reads from its event: \<open>event.clientX\<close> (\<open>NaN\<close> stands for the
  \<open>undefined\<close> of a touch event, which only flows into a subtraction) and the bounding
  rectangle of \<open>event.currentTarget\<close>.
\<close>

record pointerEvent =
  clientX :: number
  rectLeft :: real
  rectWidth :: real

subsection \<open>The state\<close>

text \<open>
  The first six fields are the \<open>useState\<close> cells. The others are the world the component
  acts on: the ref, the listeners it has registered, the commands it has issued, the
  promises that are still pending, the console, and what escaped (a rejection nobody
  handles, an exception thrown out of a handler, a setter called after unmount).
\<close>

record session =
  isPlaying :: bool
  currentTime :: number
  isLoading :: bool
  longestDuration :: number
  seeking :: bool
  videoMetadataLoaded :: bool
  video2Ref :: "videoElement option"
  mounted :: bool
  loadedmetadataListener :: bool
  seekingListener :: "bool option"
  timeupdateListeners :: nat
  commands :: "command list"
  pendingPlays :: "play_origin list"
  pendingFullscreen :: "fs_request list"
  fullscreenElement :: bool
  console :: "console_entry list"
  unhandledRejections :: nat
  uncaughtErrors :: nat
  staleUpdates :: nat

text \<open>
  State setters. React ignores an update of a component that is no longer mounted; the
  call itself is still made by the source, and is counted in \<open>staleUpdates\<close>.
\<close>

definition setIsPlaying :: "bool \<Rightarrow> session \<Rightarrow> session" where
  "setIsPlaying v s =
     (if mounted s then s\<lparr>isPlaying := v\<rparr> else s\<lparr>staleUpdates := Suc (staleUpdates s)\<rparr>)"

definition setCurrentTime :: "number \<Rightarrow> session \<Rightarrow> session" where
  "setCurrentTime v s =
     (if mounted s then s\<lparr>currentTime := v\<rparr> else s\<lparr>staleUpdates := Suc (staleUpdates s)\<rparr>)"

definition setIsLoading :: "bool \<Rightarrow> session \<Rightarrow> session" where
  "setIsLoading v s =
     (if mounted s then s\<lparr>isLoading := v\<rparr> else s\<lparr>staleUpdates := Suc (staleUpdates s)\<rparr>)"

definition setLongestDuration :: "number \<Rightarrow> session \<Rightarrow> session" where
  "setLongestDuration v s =
     (if mounted s then s\<lparr>longestDuration := v\<rparr>
      else s\<lparr>staleUpdates := Suc (staleUpdates s)\<rparr>)"

definition setSeeking :: "bool \<Rightarrow> session \<Rightarrow> session" where
  "setSeeking v s =
     (if mounted s then s\<lparr>seeking := v\<rparr> else s\<lparr>staleUpdates := Suc (staleUpdates s)\<rparr>)"

definition setVideoMetadataLoaded :: "bool \<Rightarrow> session \<Rightarrow> session" where
  "setVideoMetadataLoaded v s =
     (if mounted s then s\<lparr>videoMetadataLoaded := v\<rparr>
      else s\<lparr>staleUpdates := Suc (staleUpdates s)\<rparr>)"

definition consoleLog :: "string \<Rightarrow> session \<Rightarrow> session" where
  "consoleLog m s = s\<lparr>console := console s @ [ConsoleLog m]\<rparr>"

definition consoleError :: "string \<Rightarrow> session \<Rightarrow> session" where
  "consoleError m s = s\<lparr>console := console s @ [ConsoleError m]\<rparr>"

text \<open>
  \<open>video2Ref.current?.play()\<close> and \<open>video2Ref.current?.pause()\<close>: nothing on a null ref.

  \<open>pendingPlays\<close> holds the promises whose continuation has not run yet. When and how
  a promise settles is the browser's choice: any pending promise may be fulfilled or
  rejected at any later step. A browser that follows the HTML standard rejects the
  promises that are pending when \<open>pause()\<close> is called, in a task it queues; that is one of
  the behaviours the model allows, and \<open>elPause\<close> itself, like the component, does nothing
  about the promises.
\<close>

definition elPlay :: "play_origin \<Rightarrow> session \<Rightarrow> session" where
  "elPlay origin s =
     (case video2Ref s of
        None \<Rightarrow> s
      | Some el \<Rightarrow> s\<lparr>commands := commands s @ [Play],
                      pendingPlays := pendingPlays s @ [origin]\<rparr>)"

definition elPause :: "session \<Rightarrow> session" where
  "elPause s =
     (case video2Ref s of
        None \<Rightarrow> s
      | Some el \<Rightarrow> s\<lparr>commands := commands s @ [Pause]\<rparr>)"

subsection \<open>Handlers\<close>

text \<open>
  \<open>onVideoLoadedMetadata\<close> (lines 32-38), the listener of \<open>loadedmetadata\<close>.
\<close>

definition onVideoLoadedMetadata :: "session \<Rightarrow> session" where
  "onVideoLoadedMetadata s =
     (let s1 = consoleLog ''Video metadata loaded'' s;
          s2 = setVideoMetadataLoaded True s1
      in case video2Ref s2 of
           None \<Rightarrow> s2
         | Some el \<Rightarrow> setLongestDuration (duration el) s2)"

text \<open>
  \<open>handlePlayPauseClick\<close> (lines 52-69) up to its \<open>await\<close>. The handler is a closure of
  the render it was created in: \<open>c\<close> is that render, whose \<open>isPlaying\<close> lines 53 and 59
  read, and \<open>s\<close> is the state the call acts on. What follows the \<open>await\<close> is \<open>playSettled\<close>
  below.
\<close>

definition handlePlayPauseClick :: "session \<Rightarrow> session \<Rightarrow> session" where
  "handlePlayPauseClick c s =
     (let s1 = setIsPlaying (\<not> isPlaying c) s
      in case video2Ref s1 of
           None \<Rightarrow> s1
         | Some el \<Rightarrow> if isPlaying c then elPause s1 else elPlay FromClick s1)"

text \<open>
  The continuation of a \<open>play()\<close> promise, by call site: the \<open>catch\<close> block of line 64,
  the \<open>.catch\<close> of line 88, the \<open>.catch\<close> of line 176; the promises of lines 135 and 166
  have no rejection handler, so their rejection is unhandled. Fulfilment runs no code.
\<close>

fun playRejected :: "play_origin \<Rightarrow> session \<Rightarrow> session" where
  "playRejected FromClick s = setIsPlaying False (consoleError ''Error with playing:'' s)"
| "playRejected FromSyncPlayback s = setIsPlaying False (consoleError ''Error playing video'' s)"
| "playRejected FromSyncPlay s = consoleLog ''Play failed for video 2'' s"
| "playRejected FromSeekMouseUp s = s\<lparr>unhandledRejections := Suc (unhandledRejections s)\<rparr>"
| "playRejected FromIsPlayingEffect s = s\<lparr>unhandledRejections := Suc (unhandledRejections s)\<rparr>"

definition playSettled :: "play_origin \<Rightarrow> outcome \<Rightarrow> session \<Rightarrow> session" where
  "playSettled origin r s =
     (if origin \<in> set (pendingPlays s)
      then (let s1 = s\<lparr>pendingPlays := remove1 origin (pendingPlays s)\<rparr>
            in case r of Fulfilled \<Rightarrow> s1 | Rejected \<Rightarrow> playRejected origin s1)
      else s)"

text \<open>
  \<open>applyTimeToVideos\<close> (lines 71-74). Assigning a non-finite number to \<open>currentTime\<close> of a
  media element throws a \<open>TypeError\<close>; the assignment is the first statement, so nothing
  has happened when it throws.
\<close>

datatype js_error = TypeError

definition applyTimeToVideos :: "number \<Rightarrow> session \<Rightarrow> js_error + session" where
  "applyTimeToVideos time s =
     (case video2Ref s of
        None \<Rightarrow> Inr (setCurrentTime time s)
      | Some el \<Rightarrow>
          if isFinite time
          then Inr (setCurrentTime time
                 (s\<lparr>video2Ref := Some (el\<lparr>elCurrentTime := time\<rparr>),
                    commands := commands s @ [SetCurrentTime time]\<rparr>))
          else Inl TypeError)"

text \<open>The \<open>timeupdate\<close> listener of lines 83-86 and the \<open>seeking\<close> listener of lines 103-108.\<close>

definition handleTimeUpdate :: "session \<Rightarrow> session" where
  "handleTimeUpdate s =
     (case video2Ref s of None \<Rightarrow> s | Some el \<Rightarrow> setCurrentTime (elCurrentTime el) s)"

text \<open>\<open>handleSeeking\<close> reads \<open>seeking\<close> from the render its effect ran in: the argument \<open>b\<close>.\<close>

definition handleSeeking :: "bool \<Rightarrow> session \<Rightarrow> session" where
  "handleSeeking b s =
     (case video2Ref s of
        None \<Rightarrow> s
      | Some el \<Rightarrow> if b then setCurrentTime (elCurrentTime el) s else s)"

text \<open>\<open>calculateNewTime\<close> (lines 119-124).\<close>

definition calculateNewTime :: "pointerEvent \<Rightarrow> session \<Rightarrow> number" where
  "calculateNewTime ev s =
     (let offsetX = jsSub (clientX ev) (Num (rectLeft ev));
          relativePosition = jsDiv offsetX (Num (rectWidth ev))
      in jsMul relativePosition (longestDuration s))"

text \<open>
  \<open>handleSeekMouseUp\<close> (lines 127-137), bound to \<open>onMouseUp\<close> and \<open>onTouchEnd\<close> of the seek
  bar. An exception thrown by \<open>applyTimeToVideos\<close> leaves the handler; the update
  \<open>setSeeking(false)\<close> made before it stays queued.
\<close>

definition handleSeekMouseUp :: "pointerEvent \<Rightarrow> session \<Rightarrow> session" where
  "handleSeekMouseUp ev s =
     (if \<not> seeking s then s
      else (let s1 = setSeeking False s;
                seekTo = calculateNewTime ev s
            in case applyTimeToVideos seekTo s1 of
                 Inl e \<Rightarrow> s1\<lparr>uncaughtErrors := Suc (uncaughtErrors s1)\<rparr>
               | Inr s2 \<Rightarrow> if isPlaying s then elPlay FromSeekMouseUp s2 else s2))"

text \<open>\<open>handleMuteClick\<close> (lines 139-144).\<close>

definition handleMuteClick :: "session \<Rightarrow> session" where
  "handleMuteClick s =
     (case video2Ref s of
        None \<Rightarrow> s
      | Some el \<Rightarrow>
          (let s1 = consoleLog ''Mute clicked'' s;
               m = (if muted el then False else True)
           in s1\<lparr>video2Ref := Some (el\<lparr>muted := m\<rparr>),
                 commands := commands s1 @ [SetMuted m]\<rparr>))"

text \<open>
  \<open>handleFullscreenClick\<close> (lines 146-159). The element with id \<open>player\<close> is the root of the
  mounted component. Only the promise of \<open>requestFullscreen\<close> has a rejection handler.
\<close>

definition handleFullscreenClick :: "session \<Rightarrow> session" where
  "handleFullscreenClick s =
     (if \<not> fullscreenElement s
      then s\<lparr>pendingFullscreen := pendingFullscreen s @ [RequestFullscreen]\<rparr>
      else s\<lparr>pendingFullscreen := pendingFullscreen s @ [ExitFullscreen]\<rparr>)"

definition fullscreenSettled :: "fs_request \<Rightarrow> outcome \<Rightarrow> session \<Rightarrow> session" where
  "fullscreenSettled q r s =
     (if q \<in> set (pendingFullscreen s)
      then (let s1 = s\<lparr>pendingFullscreen := remove1 q (pendingFullscreen s)\<rparr>
            in case (q, r) of
                 (RequestFullscreen, Fulfilled) \<Rightarrow> s1\<lparr>fullscreenElement := True\<rparr>
               | (RequestFullscreen, Rejected) \<Rightarrow>
                   consoleError ''Error attempting to enable full-screen mode'' s1
               | (ExitFullscreen, Fulfilled) \<Rightarrow> s1\<lparr>fullscreenElement := False\<rparr>
               | (ExitFullscreen, Rejected) \<Rightarrow>
                   s1\<lparr>unhandledRejections := Suc (unhandledRejections s1)\<rparr>)
      else s)"

subsection \<open>Effects and React's commit\<close>

text \<open>
  Each effect body takes the render it belongs to (\<open>c\<close>, whose state values its closure
  sees) and the state it acts on. In source order: lines 24-29, 77-99, 102-117, 164-170,
  172-183. The effect of lines 31-50 has no dependencies and runs at mount only.

  \<open>syncPlayback\<close> returns a cleanup function, but the effect does not return it to React:
  the \<open>timeupdate\<close> listeners it adds are never removed, and each run adds one more.
\<close>

definition metadataEffect :: "session \<Rightarrow> session \<Rightarrow> session" where
  "metadataEffect c s =
     (if videoMetadataLoaded c then setIsLoading False (consoleLog ''Metadata loaded'' s) else s)"

definition syncPlaybackEffect :: "session \<Rightarrow> session \<Rightarrow> session" where
  "syncPlaybackEffect c s =
     (if \<not> isPlaying c \<or> isLoading c \<or> video2Ref s = None then s
      else (elPlay FromSyncPlayback s)\<lparr>timeupdateListeners := Suc (timeupdateListeners s)\<rparr>)"

definition seekingEffect :: "session \<Rightarrow> session \<Rightarrow> session" where
  "seekingEffect c s =
     (case video2Ref s of None \<Rightarrow> s | Some el \<Rightarrow> s\<lparr>seekingListener := Some (seeking c)\<rparr>)"

definition isPlayingEffect :: "session \<Rightarrow> session \<Rightarrow> session" where
  "isPlayingEffect c s = (if isPlaying c then elPlay FromIsPlayingEffect s else elPause s)"

definition syncPlayEffect :: "session \<Rightarrow> session \<Rightarrow> session" where
  "syncPlayEffect c s =
     (if isPlaying c
      then (if video2Ref s \<noteq> None \<and> \<not> isLoading c then elPlay FromSyncPlay s else s)
      else s)"

text \<open>
  One pass of effects after a render: \<open>old\<close> is the previous render, \<open>c\<close> the new one; an
  effect runs when one of its dependencies differs between the two.
\<close>

definition runEffects :: "session \<Rightarrow> session \<Rightarrow> session \<Rightarrow> session" where
  "runEffects old c s =
     (let playOrLoad = (isPlaying old \<noteq> isPlaying c \<or> isLoading old \<noteq> isLoading c);
          s1 = (if videoMetadataLoaded old \<noteq> videoMetadataLoaded c
                then metadataEffect c s else s);
          s2 = (if playOrLoad then syncPlaybackEffect c s1 else s1);
          s3 = (if seeking old \<noteq> seeking c then seekingEffect c s2 else s2);
          s4 = (if isPlaying old \<noteq> isPlaying c then isPlayingEffect c s3 else s3);
          s5 = (if playOrLoad then syncPlayEffect c s4 else s4)
      in s5)"

text \<open>
  The commit after a handler: render with the new state and run the effects; the only
  effect that sets state is the one of lines 24-29 (\<open>setIsLoading(false)\<close>), and when it
  changed \<open>isLoading\<close> React renders once more and runs the effects that depend on it.
\<close>

definition commit :: "session \<Rightarrow> session \<Rightarrow> session" where
  "commit old s =
     (let s' = runEffects old s s
      in if isLoading s' \<noteq> isLoading s then runEffects s s' s' else s')"

text \<open>
  Mounting: the initial state of the \<open>useState\<close> calls, the ref as \<open>VideoPlayer\<close> filled it,
  and every effect run once, in source order, on the initial render.
\<close>

definition initial :: "videoElement option \<Rightarrow> session" where
  "initial ref =
     \<lparr>isPlaying = False, currentTime = Num 0, isLoading = True, longestDuration = Num 0,
      seeking = False, videoMetadataLoaded = False, video2Ref = ref, mounted = True,
      loadedmetadataListener = False, seekingListener = None, timeupdateListeners = 0,
      commands = [], pendingPlays = [], pendingFullscreen = [], fullscreenElement = False,
      console = [], unhandledRejections = 0, uncaughtErrors = 0, staleUpdates = 0\<rparr>"

definition mount :: "videoElement option \<Rightarrow> session" where
  "mount ref =
     (let c = initial ref;
          s1 = metadataEffect c c;
          s2 = s1\<lparr>loadedmetadataListener := (video2Ref s1 \<noteq> None)\<rparr>;
          s3 = syncPlaybackEffect c s2;
          s4 = seekingEffect c s3;
          s5 = isPlayingEffect c s4;
          s6 = syncPlayEffect c s5
      in s6)"

text \<open>
  Unmounting runs the cleanups React was given: lines 44-49 and 114-116. There is none
  for the \<open>timeupdate\<close> listeners.
\<close>

definition unmount :: "session \<Rightarrow> session" where
  "unmount s = s\<lparr>mounted := False, loadedmetadataListener := False, seekingListener := None\<rparr>"

subsection \<open>Events and steps\<close>

datatype event =
    LoadedMetadata number
  | TimeUpdate number
  | SeekingEvent number
  | PlayPauseClick
  | PlaySettled play_origin outcome
  | SeekMouseUp pointerEvent
  | SeekMouseLeave
  | MuteClick
  | FullscreenClick
  | FullscreenSettled fs_request outcome
  | Unmount

text \<open>
  What runs on an event, before the commit. An element event first shows the value the
  browser gave the property, then runs the listeners that are registered; there is no
  element event without an element. The controls exist only while the component is
  mounted. React re-renders after each click, so the handler a click runs is the closure
  of the current state.
\<close>

fun handle :: "session \<Rightarrow> event \<Rightarrow> session" where
  "handle s (LoadedMetadata d) =
     (case video2Ref s of
        None \<Rightarrow> s
      | Some el \<Rightarrow>
          (let s0 = s\<lparr>video2Ref := Some (el\<lparr>duration := d\<rparr>)\<rparr>
           in if loadedmetadataListener s then onVideoLoadedMetadata s0 else s0))"
| "handle s (TimeUpdate t) =
     (case video2Ref s of
        None \<Rightarrow> s
      | Some el \<Rightarrow>
          (handleTimeUpdate ^^ timeupdateListeners s)
            (s\<lparr>video2Ref := Some (el\<lparr>elCurrentTime := t\<rparr>)\<rparr>))"
| "handle s (SeekingEvent t) =
     (case video2Ref s of
        None \<Rightarrow> s
      | Some el \<Rightarrow>
          (let s0 = s\<lparr>video2Ref := Some (el\<lparr>elCurrentTime := t\<rparr>)\<rparr>
           in case seekingListener s of None \<Rightarrow> s0 | Some b \<Rightarrow> handleSeeking b s0))"
| "handle s PlayPauseClick = (if mounted s then handlePlayPauseClick s s else s)"
| "handle s (PlaySettled origin r) = playSettled origin r s"
| "handle s (SeekMouseUp ev) = (if mounted s then handleSeekMouseUp ev s else s)"
| "handle s SeekMouseLeave = (if mounted s then setSeeking False s else s)"
| "handle s MuteClick = (if mounted s then handleMuteClick s else s)"
| "handle s FullscreenClick = (if mounted s then handleFullscreenClick s else s)"
| "handle s (FullscreenSettled q r) = fullscreenSettled q r s"
| "handle s Unmount = unmount s"

definition step :: "session \<Rightarrow> event \<Rightarrow> session" where
  "step s e = commit s (handle s e)"

definition run :: "session \<Rightarrow> event list \<Rightarrow> session" where
  "run s es = foldl step s es"

text \<open>
  Two calls of \<open>handlePlayPauseClick\<close> in immediate succession, with no render between
  them (two calls in one task): both are the closure of the same render, React batches
  their updates and commits once.
\<close>

definition togglePlayTwice :: "session \<Rightarrow> session" where
  "togglePlayTwice s =
     (if mounted s then commit s (handlePlayPauseClick s (handlePlayPauseClick s s)) else s)"

text \<open>The value rendered into the progress bar (lines 161-162).\<close>

definition watchedPercentage :: "session \<Rightarrow> number" where
  "watchedPercentage s =
     (if jsGt (longestDuration s) (Num 0)
      then jsMul (jsDiv (currentTime s) (longestDuration s)) (Num 100)
      else Num 0)"

subsection \<open>Runs, observations and example inputs\<close>

text \<open>
  How often a run leaves the loading phase: the number of steps of the run before which
  \<open>isLoading\<close> holds and after which it does not.
\<close>

fun readyTransitions :: "session \<Rightarrow> event list \<Rightarrow> nat" where
  "readyTransitions s [] = 0"
| "readyTransitions s (e # es) =
     (if isLoading s \<and> \<not> isLoading (step s e) then 1 else 0) + readyTransitions (step s e) es"

text \<open>The React state of the component, as one value.\<close>

definition sessionState :: "session \<Rightarrow> bool \<times> number \<times> bool \<times> number \<times> bool \<times> bool" where
  "sessionState s =
     (isPlaying s, currentTime s, isLoading s, longestDuration s, seeking s,
      videoMetadataLoaded s)"

text \<open>
  Modelled from the spec: the Media Binding Layer. The source of \<open>VideoPlayer\<close>, the
  component behind \<open>video2Ref\<close>, is not among the files at hand; by the specification it
  wraps a video element and an audio element behind the one handle the player holds, and
  every command on the handle (play, pause, seek, mute) is issued to both elements.
  \<open>bindingLayer c\<close> is the pair of commands the video track and the audio track receive
  for the command \<open>c\<close> on the handle.
\<close>

definition bindingLayer :: "command \<Rightarrow> command \<times> command" where
  "bindingLayer c = (c, c)"

definition videoTrackCommands :: "session \<Rightarrow> command list" where
  "videoTrackCommands s = map (fst \<circ> bindingLayer) (commands s)"

definition audioTrackCommands :: "session \<Rightarrow> command list" where
  "audioTrackCommands s = map (snd \<circ> bindingLayer) (commands s)"

text \<open>
  Example inputs: a media element before its metadata is known, the session after it
  reported a duration of 120 seconds, and pointer events on a seek bar at \<open>left = 100\<close>
  of width \<open>200\<close>.
\<close>

definition exampleElement :: videoElement where
  "exampleElement = \<lparr>duration = NaN, elCurrentTime = Num 0, muted = False\<rparr>"

definition readyExample :: session where
  "readyExample = run (mount (Some exampleElement)) [LoadedMetadata (Num 120)]"

definition pointerInside :: pointerEvent where
  "pointerInside = \<lparr>clientX = Num 150, rectLeft = 100, rectWidth = 200\<rparr>"

definition pointerLeftOfBar :: pointerEvent where
  "pointerLeftOfBar = \<lparr>clientX = Num 50, rectLeft = 100, rectWidth = 200\<rparr>"

text \<open>
  The session in which the play button was clicked once after the metadata arrived, and
  the same session after the component was unmounted while the play requests were
  still pending.
\<close>

definition playingExample :: session where
  "playingExample =
     run (mount (Some exampleElement)) [LoadedMetadata (Num 120), PlayPauseClick]"

definition tornDownExample :: session where
  "tornDownExample =
     run (mount (Some exampleElement)) [LoadedMetadata (Num 120), PlayPauseClick, Unmount]"



text \<open>
  What holds of a mounted session with a bound element as far as loading is concerned:
  the \<open>loadedmetadata\<close> listener is registered, and \<open>isLoading\<close> is true exactly as long as
  \<open>videoMetadataLoaded\<close> is false.
\<close>

definition loadInv :: "session \<Rightarrow> bool" where
  "loadInv s =
     (mounted s \<and> video2Ref s \<noteq> None \<and> loadedmetadataListener s \<and>
      isLoading s = (\<not> videoMetadataLoaded s))"

section \<open>Basic facts\<close>

subsection \<open>Setters, element calls and effects as record updates\<close>

lemma setIsPlaying_upd:
  "setIsPlaying v s =
     s\<lparr>isPlaying := (if mounted s then v else isPlaying s),
       staleUpdates := (if mounted s then staleUpdates s else Suc (staleUpdates s))\<rparr>"
  by (simp add: setIsPlaying_def)

lemma setCurrentTime_upd:
  "setCurrentTime v s =
     s\<lparr>currentTime := (if mounted s then v else currentTime s),
       staleUpdates := (if mounted s then staleUpdates s else Suc (staleUpdates s))\<rparr>"
  by (simp add: setCurrentTime_def)

lemma setIsLoading_upd:
  "setIsLoading v s =
     s\<lparr>isLoading := (if mounted s then v else isLoading s),
       staleUpdates := (if mounted s then staleUpdates s else Suc (staleUpdates s))\<rparr>"
  by (simp add: setIsLoading_def)

lemma setLongestDuration_upd:
  "setLongestDuration v s =
     s\<lparr>longestDuration := (if mounted s then v else longestDuration s),
       staleUpdates := (if mounted s then staleUpdates s else Suc (staleUpdates s))\<rparr>"
  by (simp add: setLongestDuration_def)

lemma setSeeking_upd:
  "setSeeking v s =
     s\<lparr>seeking := (if mounted s then v else seeking s),
       staleUpdates := (if mounted s then staleUpdates s else Suc (staleUpdates s))\<rparr>"
  by (simp add: setSeeking_def)

lemma setVideoMetadataLoaded_upd:
  "setVideoMetadataLoaded v s =
     s\<lparr>videoMetadataLoaded := (if mounted s then v else videoMetadataLoaded s),
       staleUpdates := (if mounted s then staleUpdates s else Suc (staleUpdates s))\<rparr>"
  by (simp add: setVideoMetadataLoaded_def)

lemma elPlay_upd:
  "elPlay origin s =
     s\<lparr>commands := commands s @ (if video2Ref s = None then [] else [Play]),
       pendingPlays := pendingPlays s @ (if video2Ref s = None then [] else [origin])\<rparr>"
  by (simp add: elPlay_def split: option.split)

lemma elPause_upd:
  "elPause s = s\<lparr>commands := commands s @ (if video2Ref s = None then [] else [Pause])\<rparr>"
  by (simp add: elPause_def split: option.split)

lemmas prim_upd = setIsPlaying_upd setCurrentTime_upd setIsLoading_upd setLongestDuration_upd
  setSeeking_upd setVideoMetadataLoaded_upd elPlay_upd elPause_upd consoleLog_def
  consoleError_def

lemma metadataEffect_upd:
  "metadataEffect c s =
     s\<lparr>isLoading := (if videoMetadataLoaded c \<and> mounted s then False else isLoading s),
       console := console s @
         (if videoMetadataLoaded c then [ConsoleLog ''Metadata loaded''] else []),
       staleUpdates :=
         (if videoMetadataLoaded c \<and> \<not> mounted s then Suc (staleUpdates s)
          else staleUpdates s)\<rparr>"
  by (simp add: metadataEffect_def prim_upd)

lemma syncPlaybackEffect_upd:
  "syncPlaybackEffect c s =
     (let b = (isPlaying c \<and> \<not> isLoading c \<and> video2Ref s \<noteq> None)
      in s\<lparr>timeupdateListeners :=
             (if b then Suc (timeupdateListeners s) else timeupdateListeners s),
           commands := commands s @ (if b then [Play] else []),
           pendingPlays := pendingPlays s @ (if b then [FromSyncPlayback] else [])\<rparr>)"
  by (auto simp: syncPlaybackEffect_def prim_upd Let_def)

lemma seekingEffect_upd:
  "seekingEffect c s =
     s\<lparr>seekingListener :=
         (if video2Ref s = None then seekingListener s else Some (seeking c))\<rparr>"
  by (simp add: seekingEffect_def split: option.split)

lemma isPlayingEffect_upd:
  "isPlayingEffect c s =
     s\<lparr>commands := commands s @
         (if video2Ref s = None then [] else [if isPlaying c then Play else Pause]),
       pendingPlays := pendingPlays s @
         (if video2Ref s \<noteq> None \<and> isPlaying c then [FromIsPlayingEffect] else [])\<rparr>"
  by (auto simp: isPlayingEffect_def prim_upd)

lemma syncPlayEffect_upd:
  "syncPlayEffect c s =
     (let b = (isPlaying c \<and> \<not> isLoading c \<and> video2Ref s \<noteq> None)
      in s\<lparr>commands := commands s @ (if b then [Play] else []),
           pendingPlays := pendingPlays s @ (if b then [FromSyncPlay] else [])\<rparr>)"
  by (auto simp: syncPlayEffect_def prim_upd Let_def)

lemmas effect_upd = metadataEffect_upd syncPlaybackEffect_upd seekingEffect_upd
  isPlayingEffect_upd syncPlayEffect_upd

subsection \<open>What a commit leaves alone\<close>

lemma runEffects_frame:
  "isPlaying (runEffects old c s) = isPlaying s"
  "seeking (runEffects old c s) = seeking s"
  "videoMetadataLoaded (runEffects old c s) = videoMetadataLoaded s"
  "currentTime (runEffects old c s) = currentTime s"
  "longestDuration (runEffects old c s) = longestDuration s"
  "video2Ref (runEffects old c s) = video2Ref s"
  "mounted (runEffects old c s) = mounted s"
  "unhandledRejections (runEffects old c s) = unhandledRejections s"
  "uncaughtErrors (runEffects old c s) = uncaughtErrors s"
  "loadedmetadataListener (runEffects old c s) = loadedmetadataListener s"
  by (simp_all add: runEffects_def effect_upd Let_def)

lemma runEffects_isLoading:
  "isLoading (runEffects old c s) =
     (if videoMetadataLoaded old \<noteq> videoMetadataLoaded c \<and> videoMetadataLoaded c \<and> mounted s
      then False else isLoading s)"
  by (simp add: runEffects_def effect_upd Let_def)

lemma commit_frame:
  "isPlaying (commit old s) = isPlaying s"
  "seeking (commit old s) = seeking s"
  "videoMetadataLoaded (commit old s) = videoMetadataLoaded s"
  "currentTime (commit old s) = currentTime s"
  "longestDuration (commit old s) = longestDuration s"
  "video2Ref (commit old s) = video2Ref s"
  "mounted (commit old s) = mounted s"
  "unhandledRejections (commit old s) = unhandledRejections s"
  "uncaughtErrors (commit old s) = uncaughtErrors s"
  "loadedmetadataListener (commit old s) = loadedmetadataListener s"
  by (simp_all add: commit_def runEffects_frame Let_def)

lemma commit_isLoading:
  "isLoading (commit old s) =
     (if videoMetadataLoaded old \<noteq> videoMetadataLoaded s \<and> videoMetadataLoaded s \<and> mounted s
      then False else isLoading s)"
  by (simp add: commit_def runEffects_isLoading runEffects_frame Let_def)

lemma commit_same: "commit s s = s"
  by (simp add: commit_def runEffects_def)

lemma run_Nil: "run s [] = s"
  by (simp add: run_def)

lemma run_Cons: "run s (e # es) = run (step s e) es"
  by (simp add: run_def)

lemma run_snoc: "run s (es @ [e]) = step (run s es) e"
  by (simp add: run_def)

subsection \<open>The example sessions, evaluated\<close>

lemma mount_Some:
  "mount (Some el) =
     (initial (Some el))\<lparr>loadedmetadataListener := True, seekingListener := Some False,
        commands := [Pause]\<rparr>"
  by (simp add: mount_def effect_upd Let_def initial_def)

lemma readyExample_eq:
  "readyExample =
     \<lparr>isPlaying = False, currentTime = Num 0, isLoading = False, longestDuration = Num 120,
      seeking = False, videoMetadataLoaded = True,
      video2Ref = Some \<lparr>duration = Num 120, elCurrentTime = Num 0, muted = False\<rparr>,
      mounted = True, loadedmetadataListener = True, seekingListener = Some False,
      timeupdateListeners = 0, commands = [Pause], pendingPlays = [], pendingFullscreen = [],
      fullscreenElement = False,
      console = [ConsoleLog ''Video metadata loaded'', ConsoleLog ''Metadata loaded''],
      unhandledRejections = 0, uncaughtErrors = 0, staleUpdates = 0\<rparr>"
  by (simp add: readyExample_def run_Cons run_Nil step_def mount_Some initial_def
      exampleElement_def onVideoLoadedMetadata_def prim_upd commit_def runEffects_def
      effect_upd Let_def)

lemma playingExample_step: "playingExample = step readyExample PlayPauseClick"
  by (simp add: playingExample_def readyExample_def run_Cons run_Nil)

section \<open>Handlers and steps, field by field\<close>

subsection \<open>Listeners and promise continuations\<close>

text \<open>
  All \<open>timeupdate\<close> listeners do the same, so \<open>n\<close> of them leave the state one of them
  leaves, up to the count of setter calls made after unmount.
\<close>

lemma handleTimeUpdate_funpow:
  "(handleTimeUpdate ^^ n) s =
     s\<lparr>currentTime :=
         (case video2Ref s of
            None \<Rightarrow> currentTime s
          | Some el \<Rightarrow> if 0 < n \<and> mounted s then elCurrentTime el else currentTime s),
       staleUpdates :=
         (if mounted s \<or> video2Ref s = None then staleUpdates s else staleUpdates s + n)\<rparr>"
  (is "_ = ?R n")
proof (induction n)
  case 0
  show ?case by (simp split: option.split)
next
  case (Suc n)
  have a: "(handleTimeUpdate ^^ Suc n) s = handleTimeUpdate ((handleTimeUpdate ^^ n) s)"
    by simp
  have b: "handleTimeUpdate (?R n) = ?R (Suc n)"
    by (simp add: handleTimeUpdate_def setCurrentTime_upd split: option.split)
  show ?case by (simp only: a Suc b)
qed

lemma playRejected_frame:
  "seeking (playRejected origin s) = seeking s"
  "isLoading (playRejected origin s) = isLoading s"
  "videoMetadataLoaded (playRejected origin s) = videoMetadataLoaded s"
  "currentTime (playRejected origin s) = currentTime s"
  "longestDuration (playRejected origin s) = longestDuration s"
  "video2Ref (playRejected origin s) = video2Ref s"
  "mounted (playRejected origin s) = mounted s"
  "commands (playRejected origin s) = commands s"
  "pendingPlays (playRejected origin s) = pendingPlays s"
  "timeupdateListeners (playRejected origin s) = timeupdateListeners s"
  "seekingListener (playRejected origin s) = seekingListener s"
  "uncaughtErrors (playRejected origin s) = uncaughtErrors s"
  by (cases origin; simp add: prim_upd)+

lemma playRejected_isPlaying: "isPlaying (playRejected origin s) \<Longrightarrow> isPlaying s"
  by (cases origin) (simp_all add: prim_upd split: if_splits)

lemmas handler_defs = onVideoLoadedMetadata_def handleTimeUpdate_funpow handleSeeking_def
  handlePlayPauseClick_def playSettled_def handleSeekMouseUp_def handleMuteClick_def
  handleFullscreenClick_def fullscreenSettled_def unmount_def applyTimeToVideos_def
  playRejected_frame prim_upd Let_def

lemmas handler_splits = option.splits if_splits outcome.splits fs_request.splits

subsection \<open>What a handler can change\<close>


lemma handle_isLoading: "isLoading (handle s e) = isLoading s"
  by (cases e) (auto simp: handler_defs split: handler_splits)



lemma handle_video2Ref: "(video2Ref (handle s e) = None) = (video2Ref s = None)"
  by (cases e) (auto simp: handler_defs split: handler_splits)

lemma handle_commands_mono: "set (commands s) \<subseteq> set (commands (handle s e))"
  by (cases e) (auto simp: handler_defs split: handler_splits)

lemma handle_isPlaying_rise:
  "isPlaying (handle s e) \<Longrightarrow> \<not> isPlaying s \<Longrightarrow>
   video2Ref s = None \<or> Play \<in> set (commands (handle s e))"
  by (cases e) (auto simp: handler_defs split: handler_splits dest: playRejected_isPlaying)



lemma handle_LoadedMetadata:
  assumes "mounted s" and "video2Ref s = Some el" and "loadedmetadataListener s"
  shows "handle s (LoadedMetadata d) =
     s\<lparr>video2Ref := Some (el\<lparr>duration := d\<rparr>),
       console := console s @ [ConsoleLog ''Video metadata loaded''],
       videoMetadataLoaded := True, longestDuration := d\<rparr>"
  using assms by (simp add: onVideoLoadedMetadata_def prim_upd Let_def)

subsection \<open>What a commit can change\<close>





lemma runEffects_commands_mono: "set (commands s) \<subseteq> set (commands (runEffects old c s))"
  by (auto simp: runEffects_def effect_upd Let_def)

lemma commit_commands_mono: "set (commands s) \<subseteq> set (commands (commit old s))"
  using runEffects_commands_mono [of s old s]
    runEffects_commands_mono [of "runEffects old s s" s "runEffects old s s"]
  by (auto simp: commit_def Let_def)

lemma commit_no_deps:
  assumes "isPlaying s' = isPlaying s" and "isLoading s' = isLoading s"
    and "seeking s' = seeking s" and "videoMetadataLoaded s' = videoMetadataLoaded s"
  shows "commit s s' = s'"
  using assms by (simp add: commit_def runEffects_def)

lemma commit_unchanged: "sessionState s' = sessionState s \<Longrightarrow> commit s s' = s'"
  by (rule commit_no_deps) (simp_all add: sessionState_def)

subsection \<open>Steps\<close>


lemma step_isLoading: "isLoading (step s e) \<Longrightarrow> isLoading s"
  by (simp add: step_def commit_isLoading handle_isLoading split: if_splits)

lemma step_video2Ref: "(video2Ref (step s e) = None) = (video2Ref s = None)"
  by (simp add: step_def commit_frame handle_video2Ref)

lemma step_commands_mono: "set (commands s) \<subseteq> set (commands (step s e))"
  unfolding step_def using handle_commands_mono commit_commands_mono by blast


lemma step_Unmount: "step s Unmount = unmount s"
  unfolding step_def handle.simps
  by (rule commit_unchanged) (simp add: sessionState_def unmount_def)



lemma step_play_issued:
  assumes "video2Ref s \<noteq> None" and "isPlaying s \<longrightarrow> Play \<in> set (commands s)"
  shows "isPlaying (step s e) \<longrightarrow> Play \<in> set (commands (step s e))"
proof
  assume p: "isPlaying (step s e)"
  then have h: "isPlaying (handle s e)" by (simp add: step_def commit_frame)
  show "Play \<in> set (commands (step s e))"
  proof (cases "isPlaying s")
    case True
    then show ?thesis using assms step_commands_mono by blast
  next
    case False
    then have "Play \<in> set (commands (handle s e))"
      using handle_isPlaying_rise [OF h] assms(1) by blast
    then show ?thesis unfolding step_def using commit_commands_mono by blast
  qed
qed

text \<open>The three steps of the play button and of its promise, in full.\<close>

lemma step_click_play:
  assumes "\<not> isPlaying s" and "mounted s" and "video2Ref s = Some el"
  shows "step s PlayPauseClick =
     s\<lparr>isPlaying := True,
       timeupdateListeners :=
         (if isLoading s then timeupdateListeners s else Suc (timeupdateListeners s)),
       commands := commands s @
         Play # (if isLoading s then [Play] else [Play, Play, Play]),
       pendingPlays := pendingPlays s @
         FromClick # (if isLoading s then [FromIsPlayingEffect]
                      else [FromSyncPlayback, FromIsPlayingEffect, FromSyncPlay])\<rparr>"
  using assms
  by (simp add: step_def handlePlayPauseClick_def prim_upd commit_def runEffects_def
      effect_upd Let_def)

lemma step_click_pause:
  assumes "isPlaying s" and "mounted s" and "video2Ref s = Some el"
  shows "step s PlayPauseClick =
     s\<lparr>isPlaying := False, commands := commands s @ [Pause, Pause]\<rparr>"
  using assms
  by (simp add: step_def handlePlayPauseClick_def prim_upd commit_def runEffects_def
      effect_upd Let_def)

lemma step_click_rejected:
  assumes "mounted s" and "FromClick \<in> set (pendingPlays s)"
  shows "step s (PlaySettled FromClick Rejected) =
     s\<lparr>isPlaying := False,
       pendingPlays := remove1 FromClick (pendingPlays s),
       console := console s @ [ConsoleError ''Error with playing:''],
       commands := commands s @
         (if isPlaying s \<and> video2Ref s \<noteq> None then [Pause] else [])\<rparr>"
  using assms
  by (simp add: step_def playSettled_def prim_upd commit_def runEffects_def
      effect_upd Let_def)

lemma step_settled_not_playing:
  "\<not> isPlaying s \<Longrightarrow> \<not> isPlaying (step s (PlaySettled origin r))"
  by (auto simp: step_def commit_frame playSettled_def Let_def
      dest: playRejected_isPlaying split: outcome.splits)

lemma step_unmounted_play:
  assumes "\<not> mounted s"
  shows "sessionState (handle s (PlaySettled origin r)) = sessionState s"
    and "commands (handle s (PlaySettled origin r)) = commands s"
    and "video2Ref (handle s (PlaySettled origin r)) = video2Ref s"
  using assms
  by (cases origin;
      simp add: playSettled_def sessionState_def prim_upd Let_def split: outcome.splits)+

lemma step_unmounted_fullscreen:
  assumes "\<not> mounted s"
  shows "sessionState (handle s (FullscreenSettled q r)) = sessionState s"
    and "commands (handle s (FullscreenSettled q r)) = commands s"
    and "video2Ref (handle s (FullscreenSettled q r)) = video2Ref s"
  using assms
  by (simp_all add: fullscreenSettled_def sessionState_def prim_upd Let_def
      split: outcome.splits fs_request.splits)

lemma step_LoadedMetadata:
  assumes "loadInv s"
  shows "loadInv (step s (LoadedMetadata d)) \<and> \<not> isLoading (step s (LoadedMetadata d)) \<and>
         longestDuration (step s (LoadedMetadata d)) = d"
proof -
  obtain el where el: "video2Ref s = Some el" using assms by (auto simp: loadInv_def)
  have h: "handle s (LoadedMetadata d) =
     s\<lparr>video2Ref := Some (el\<lparr>duration := d\<rparr>),
       console := console s @ [ConsoleLog ''Video metadata loaded''],
       videoMetadataLoaded := True, longestDuration := d\<rparr>"
    using assms el by (intro handle_LoadedMetadata) (auto simp: loadInv_def)
  show ?thesis
    using assms unfolding step_def h loadInv_def
    by (auto simp: commit_frame commit_isLoading)
qed

section \<open>Runs from the mounted component\<close>


lemma loadInv_mount: "loadInv (mount (Some el))" "isLoading (mount (Some el))"
  by (simp_all add: loadInv_def mount_Some initial_def)





lemma run_bound: "video2Ref (run (mount (Some el)) es) \<noteq> None"
proof (induction es rule: rev_induct)
  case Nil
  show ?case by (simp add: run_Nil mount_Some initial_def)
next
  case (snoc e es)
  then show ?case by (simp add: run_snoc step_video2Ref)
qed

lemma run_play_issued:
  "isPlaying (run (mount (Some el)) es) \<longrightarrow> Play \<in> set (commands (run (mount (Some el)) es))"
proof (induction es rule: rev_induct)
  case Nil
  show ?case by (simp add: run_Nil mount_Some initial_def)
next
  case (snoc e es)
  show ?case unfolding run_snoc using run_bound snoc by (rule step_play_issued)
qed

lemma run_settled_not_playing:
  "\<not> isPlaying s \<Longrightarrow>
   \<not> isPlaying (run s (map (\<lambda>p. PlaySettled (fst p) (snd p)) outs))"
  by (induction outs arbitrary: s) (simp_all add: run_Nil run_Cons step_settled_not_playing)

lemma run_LoadedMetadata:
  "loadInv s \<Longrightarrow> ds \<noteq> [] \<Longrightarrow>
   \<not> isLoading (run s (map LoadedMetadata ds)) \<and>
   longestDuration (run s (map LoadedMetadata ds)) = last ds"
proof (induction ds arbitrary: s)
  case Nil
  then show ?case by simp
next
  case (Cons d ds)
  show ?case
  proof (cases "ds = []")
    case True
    then show ?thesis using step_LoadedMetadata [OF Cons.prems(1), of d]
      by (simp add: run_Cons run_Nil)
  next
    case False
    have "loadInv (step s (LoadedMetadata d))"
      using step_LoadedMetadata [OF Cons.prems(1)] by simp
    then show ?thesis using Cons.IH False by (simp add: run_Cons)
  qed
qed

lemma readyTransitions_ready: "\<not> isLoading s \<Longrightarrow> readyTransitions s es = 0"
proof (induction es arbitrary: s)
  case Nil
  show ?case by simp
next
  case (Cons e es)
  have "\<not> isLoading (step s e)" using Cons.prems step_isLoading by blast
  then show ?case using Cons by simp
qed

lemma readyTransitions_le: "readyTransitions s es \<le> 1"
proof (induction es arbitrary: s)
  case Nil
  show ?case by simp
next
  case (Cons e es)
  show ?case
  proof (cases "isLoading s \<and> \<not> isLoading (step s e)")
    case True
    then show ?thesis by (simp add: readyTransitions_ready)
  next
    case False
    then show ?thesis using Cons [of "step s e"] by auto
  qed
qed

lemma readyTransitions_LoadedMetadata:
  assumes "loadInv s" and "isLoading s"
  shows "readyTransitions s (LoadedMetadata d # es) = 1"
  using step_LoadedMetadata [OF assms(1), of d] assms(2)
  by (simp add: readyTransitions_ready)

subsection \<open>The example runs, evaluated\<close>

lemma playingExample_eq:
  "playingExample =
     \<lparr>isPlaying = True, currentTime = Num 0, isLoading = False, longestDuration = Num 120,
      seeking = False, videoMetadataLoaded = True,
      video2Ref = Some \<lparr>duration = Num 120, elCurrentTime = Num 0, muted = False\<rparr>,
      mounted = True, loadedmetadataListener = True, seekingListener = Some False,
      timeupdateListeners = 1, commands = [Pause, Play, Play, Play, Play],
      pendingPlays = [FromClick, FromSyncPlayback, FromIsPlayingEffect, FromSyncPlay],
      pendingFullscreen = [], fullscreenElement = False,
      console = [ConsoleLog ''Video metadata loaded'', ConsoleLog ''Metadata loaded''],
      unhandledRejections = 0, uncaughtErrors = 0, staleUpdates = 0\<rparr>"
proof -
  have h: "\<not> isPlaying readyExample" "mounted readyExample"
    "video2Ref readyExample =
       Some \<lparr>duration = Num 120, elCurrentTime = Num 0, muted = False\<rparr>"
    by (simp_all add: readyExample_eq)
  show ?thesis
    unfolding playingExample_step step_click_play [OF h] by (simp add: readyExample_eq)
qed

lemma tornDownExample_eq:
  "tornDownExample =
     playingExample\<lparr>mounted := False, loadedmetadataListener := False,
       seekingListener := None\<rparr>"
proof -
  have "tornDownExample = step playingExample Unmount"
    by (simp add: tornDownExample_def playingExample_def run_Cons run_Nil)
  then show ?thesis by (simp add: step_Unmount unmount_def)
qed


subsection \<open>Steps used by the claims\<close>



lemma step_settled_paused:
  assumes "\<not> isPlaying s"
  shows "step s (PlaySettled origin r) = handle s (PlaySettled origin r)"
  unfolding step_def
proof (rule commit_no_deps)
  show "isPlaying (handle s (PlaySettled origin r)) = isPlaying s"
    using assms
    by (auto simp: playSettled_def Let_def dest: playRejected_isPlaying split: outcome.splits)
qed (simp_all add: playSettled_def Let_def playRejected_frame split: outcome.splits)

lemma togglePlayTwice_play:
  assumes "\<not> isPlaying s" and "mounted s" and "video2Ref s = Some el"
  shows "togglePlayTwice s =
     s\<lparr>isPlaying := True,
       timeupdateListeners :=
         (if isLoading s then timeupdateListeners s else Suc (timeupdateListeners s)),
       commands := commands s @
         Play # Play # (if isLoading s then [Play] else [Play, Play, Play]),
       pendingPlays := pendingPlays s @
         FromClick # FromClick #
           (if isLoading s then [FromIsPlayingEffect]
            else [FromSyncPlayback, FromIsPlayingEffect, FromSyncPlay])\<rparr>"
  using assms
  by (simp add: togglePlayTwice_def handlePlayPauseClick_def prim_upd commit_def
      runEffects_def effect_upd Let_def)


section \<open>Metadata and the end of loading\<close>

text \<open>
  Claim C1 says that the session becomes ready once both tracks have reported their
  metadata, with the duration set to the maximum of the two reports, whatever the order.
  The component listens to \<open>loadedmetadata\<close> on the one handle it holds, and on every such
  event stores the duration the handle has at that moment. With the reports 10 and 5 in
  this order the duration ends as 5, not as the maximum 10; in the other order it ends
  as 10; and the session is ready after the first report already.
\<close>

theorem duration_is_not_the_maximum:
  "longestDuration
     (run (mount (Some exampleElement)) [LoadedMetadata (Num 10), LoadedMetadata (Num 5)])
     = Num 5 \<and>
   longestDuration
     (run (mount (Some exampleElement)) [LoadedMetadata (Num 10), LoadedMetadata (Num 5)])
     \<noteq> Num (max 10 5) \<and>
   longestDuration
     (run (mount (Some exampleElement)) [LoadedMetadata (Num 5), LoadedMetadata (Num 10)])
     = Num 10 \<and>
   \<not> isLoading (run (mount (Some exampleElement)) [LoadedMetadata (Num 10)])"
  using run_LoadedMetadata [OF loadInv_mount(1), of "[Num 10, Num 5]" exampleElement]
    run_LoadedMetadata [OF loadInv_mount(1), of "[Num 5, Num 10]" exampleElement]
    run_LoadedMetadata [OF loadInv_mount(1), of "[Num 10]" exampleElement]
  by simp

text \<open>
  Claim C1, as the component has it. For every non-empty sequence of metadata events on
  the bound handle, starting from the mounted component: the session is ready after the
  first event, it leaves the loading phase exactly once in the run (and at most once in
  any run of any events), \<open>isLoading\<close> is false at the end, and the duration is the one
  reported last.
\<close>

theorem metadata_last_report_wins:
  assumes "ds \<noteq> []"
  shows "\<not> isLoading (run (mount (Some el)) (map LoadedMetadata ds)) \<and>
         longestDuration (run (mount (Some el)) (map LoadedMetadata ds)) = last ds \<and>
         readyTransitions (mount (Some el)) (map LoadedMetadata ds) = 1 \<and>
         \<not> isLoading (step (mount (Some el)) (LoadedMetadata (hd ds))) \<and>
         readyTransitions (mount (Some el)) es \<le> 1"
proof -
  obtain d ds' where ds: "ds = d # ds'" using assms by (cases ds) auto
  have a: "readyTransitions (mount (Some el)) (map LoadedMetadata ds) = 1"
    unfolding ds using readyTransitions_LoadedMetadata [OF loadInv_mount] by simp
  have b: "\<not> isLoading (step (mount (Some el)) (LoadedMetadata (hd ds)))"
    using step_LoadedMetadata [OF loadInv_mount(1)] by simp
  show ?thesis
    using run_LoadedMetadata [OF loadInv_mount(1) assms] a b readyTransitions_le by simp
qed

theorem metadata_last_report_wins_witness:
  "[Num 5, Num 10] \<noteq> [] \<and>
   \<not> isLoading
       (run (mount (Some exampleElement)) [LoadedMetadata (Num 5), LoadedMetadata (Num 10)]) \<and>
   longestDuration
       (run (mount (Some exampleElement)) [LoadedMetadata (Num 5), LoadedMetadata (Num 10)])
     = Num 10 \<and>
   readyTransitions (mount (Some exampleElement))
       [LoadedMetadata (Num 5), LoadedMetadata (Num 10)] = 1"
proof -
  have h: "[Num 5, Num 10] \<noteq> []" by simp
  show ?thesis
    using metadata_last_report_wins [OF h, of exampleElement "[]"]
      loadInv_mount(2) [of exampleElement]
    by simp
qed

section \<open>Time updates\<close>




section \<open>Promises that settle after unmount\<close>

text \<open>
  Claim C3 says that a play or fullscreen request that settles after teardown is a
  guarded no-op. The continuations have no liveness check. In the session that was
  unmounted with the play request of the click still pending, the rejection of that
  request runs the \<open>catch\<close> block: the state after it differs from the state before it,
  the console has one more error entry, and \<open>setIsPlaying\<close> was called on the unmounted
  component.
\<close>

theorem rejection_after_unmount_runs_catch:
  "\<not> mounted tornDownExample \<and>
   step tornDownExample (PlaySettled FromClick Rejected) \<noteq> tornDownExample \<and>
   console (step tornDownExample (PlaySettled FromClick Rejected)) =
     console tornDownExample @ [ConsoleError ''Error with playing:''] \<and>
   staleUpdates (step tornDownExample (PlaySettled FromClick Rejected)) = 1"
proof -
  have m: "\<not> mounted tornDownExample" by (simp add: tornDownExample_eq)
  have p: "step tornDownExample (PlaySettled FromClick Rejected)
           = handle tornDownExample (PlaySettled FromClick Rejected)"
    unfolding step_def by (rule commit_unchanged) (rule step_unmounted_play [OF m])
  have c: "console (handle tornDownExample (PlaySettled FromClick Rejected)) =
     console tornDownExample @ [ConsoleError ''Error with playing:'']"
    "staleUpdates (handle tornDownExample (PlaySettled FromClick Rejected)) = 1"
    by (simp_all add: playSettled_def prim_upd Let_def tornDownExample_eq playingExample_eq)
  have "console (step tornDownExample (PlaySettled FromClick Rejected))
        \<noteq> console tornDownExample"
    unfolding p c by simp
  then have "step tornDownExample (PlaySettled FromClick Rejected) \<noteq> tornDownExample"
    by auto
  then show ?thesis using m c unfolding p by simp
qed

text \<open>
  Claim C3, as the component has it. After unmount, a play or fullscreen request that
  settles changes none of the React state (\<open>isPlaying\<close>, \<open>currentTime\<close>, \<open>isLoading\<close>,
  \<open>longestDuration\<close>, \<open>seeking\<close>, \<open>videoMetadataLoaded\<close>), issues no command to the media
  element and leaves the element as it is; a fulfilled play request only leaves the
  pending list. The continuation is not guarded, though: a rejected play request of the
  click still logs the error and calls the setter, which React ignores for an unmounted
  component.
\<close>

theorem settle_after_unmount:
  assumes "\<not> mounted s" and "FromClick \<in> set (pendingPlays s)"
  shows "sessionState (step s (PlaySettled origin r)) = sessionState s \<and>
         commands (step s (PlaySettled origin r)) = commands s \<and>
         video2Ref (step s (PlaySettled origin r)) = video2Ref s \<and>
         sessionState (step s (FullscreenSettled q r)) = sessionState s \<and>
         commands (step s (FullscreenSettled q r)) = commands s \<and>
         video2Ref (step s (FullscreenSettled q r)) = video2Ref s \<and>
         step s (PlaySettled origin Fulfilled) =
           s\<lparr>pendingPlays := remove1 origin (pendingPlays s)\<rparr> \<and>
         step s (PlaySettled FromClick Rejected) =
           s\<lparr>pendingPlays := remove1 FromClick (pendingPlays s),
             console := console s @ [ConsoleError ''Error with playing:''],
             staleUpdates := Suc (staleUpdates s)\<rparr>"
proof -
  have p: "step s (PlaySettled origin r) = handle s (PlaySettled origin r)" for origin r
    unfolding step_def by (rule commit_unchanged) (rule step_unmounted_play [OF assms(1)])
  have f: "step s (FullscreenSettled q r) = handle s (FullscreenSettled q r)"
    unfolding step_def
    by (rule commit_unchanged) (rule step_unmounted_fullscreen [OF assms(1)])
  have x: "handle s (PlaySettled origin Fulfilled) =
           s\<lparr>pendingPlays := remove1 origin (pendingPlays s)\<rparr>"
    by (simp add: playSettled_def Let_def remove1_idem)
  have y: "handle s (PlaySettled FromClick Rejected) =
           s\<lparr>pendingPlays := remove1 FromClick (pendingPlays s),
             console := console s @ [ConsoleError ''Error with playing:''],
             staleUpdates := Suc (staleUpdates s)\<rparr>"
    using assms by (simp add: playSettled_def Let_def prim_upd)
  show ?thesis
    unfolding p f
    using step_unmounted_play [OF assms(1)] step_unmounted_fullscreen [OF assms(1)] x y
    by simp
qed

theorem settle_after_unmount_witness:
  "\<not> mounted tornDownExample \<and> FromClick \<in> set (pendingPlays tornDownExample) \<and>
   sessionState (step tornDownExample (PlaySettled FromClick Rejected))
     = sessionState tornDownExample \<and>
   commands (step tornDownExample (PlaySettled FromClick Rejected))
     = commands tornDownExample \<and>
   staleUpdates (step tornDownExample (PlaySettled FromClick Rejected)) = 1"
proof -
  have h: "\<not> mounted tornDownExample" "FromClick \<in> set (pendingPlays tornDownExample)"
    by (simp_all add: tornDownExample_eq playingExample_eq)
  have i: "staleUpdates tornDownExample = 0"
    by (simp add: tornDownExample_eq playingExample_eq)
  show ?thesis
    using h i settle_after_unmount [OF h, of FromClick Rejected RequestFullscreen]
    by (simp add: sessionState_def)
qed

section \<open>The play button\<close>

text \<open>
  Claim C4. A play request that fails after a click on the play button must leave the
  session paused, with the failure on record and nothing thrown past the component. The
  handler's own request (line 63) is awaited inside \<open>try/catch\<close>, and the requests of
  lines 88 and 175 have a \<open>.catch\<close>; but the same click also makes the effect of lines
  164-170 call \<open>play()\<close>, and that promise has no rejection handler. In the ready session,
  one click leaves four play requests pending; when the play request fails and they are
  rejected, \<open>isPlaying\<close> is false again and the console has the error, but the rejection
  of the request of line 166 is unhandled.
\<close>

theorem play_failure_leaves_unhandled_rejection:
  "\<not> isPlaying readyExample \<and>
   isPlaying (step readyExample PlayPauseClick) \<and>
   pendingPlays (step readyExample PlayPauseClick) =
     [FromClick, FromSyncPlayback, FromIsPlayingEffect, FromSyncPlay] \<and>
   \<not> isPlaying (run readyExample
      [PlayPauseClick, PlaySettled FromClick Rejected, PlaySettled FromSyncPlayback Rejected,
       PlaySettled FromIsPlayingEffect Rejected, PlaySettled FromSyncPlay Rejected]) \<and>
   console (run readyExample
      [PlayPauseClick, PlaySettled FromClick Rejected, PlaySettled FromSyncPlayback Rejected,
       PlaySettled FromIsPlayingEffect Rejected, PlaySettled FromSyncPlay Rejected]) =
     [ConsoleLog ''Video metadata loaded'', ConsoleLog ''Metadata loaded'',
      ConsoleError ''Error with playing:'', ConsoleError ''Error playing video'',
      ConsoleLog ''Play failed for video 2''] \<and>
   unhandledRejections readyExample = 0 \<and>
   unhandledRejections (run readyExample
      [PlayPauseClick, PlaySettled FromClick Rejected, PlaySettled FromSyncPlayback Rejected,
       PlaySettled FromIsPlayingEffect Rejected, PlaySettled FromSyncPlay Rejected]) = 1"
proof -
  let ?s2 = "step playingExample (PlaySettled FromClick Rejected)"
  let ?s3 = "step ?s2 (PlaySettled FromSyncPlayback Rejected)"
  let ?s4 = "step ?s3 (PlaySettled FromIsPlayingEffect Rejected)"
  let ?s5 = "step ?s4 (PlaySettled FromSyncPlay Rejected)"
  have m: "mounted playingExample" "FromClick \<in> set (pendingPlays playingExample)"
    by (simp_all add: playingExample_eq)
  have s2: "?s2 = playingExample\<lparr>isPlaying := False,
       pendingPlays := [FromSyncPlayback, FromIsPlayingEffect, FromSyncPlay],
       console := [ConsoleLog ''Video metadata loaded'', ConsoleLog ''Metadata loaded'',
                   ConsoleError ''Error with playing:''],
       commands := [Pause, Play, Play, Play, Play, Pause]\<rparr>"
    unfolding step_click_rejected [OF m] by (simp add: playingExample_eq)
  have p2: "\<not> isPlaying ?s2" unfolding s2 by simp
  have "?s3 = handle ?s2 (PlaySettled FromSyncPlayback Rejected)"
    by (rule step_settled_paused [OF p2])
  also have "\<dots> = playingExample\<lparr>isPlaying := False,
       pendingPlays := [FromIsPlayingEffect, FromSyncPlay],
       console := [ConsoleLog ''Video metadata loaded'', ConsoleLog ''Metadata loaded'',
                   ConsoleError ''Error with playing:'', ConsoleError ''Error playing video''],
       commands := [Pause, Play, Play, Play, Play, Pause]\<rparr>"
    unfolding s2 by (simp add: playSettled_def prim_upd playingExample_eq)
  finally have s3: "?s3 = playingExample\<lparr>isPlaying := False,
       pendingPlays := [FromIsPlayingEffect, FromSyncPlay],
       console := [ConsoleLog ''Video metadata loaded'', ConsoleLog ''Metadata loaded'',
                   ConsoleError ''Error with playing:'', ConsoleError ''Error playing video''],
       commands := [Pause, Play, Play, Play, Play, Pause]\<rparr>" .
  have p3: "\<not> isPlaying ?s3" unfolding s3 by simp
  have "?s4 = handle ?s3 (PlaySettled FromIsPlayingEffect Rejected)"
    by (rule step_settled_paused [OF p3])
  also have "\<dots> = playingExample\<lparr>isPlaying := False,
       pendingPlays := [FromSyncPlay],
       console := [ConsoleLog ''Video metadata loaded'', ConsoleLog ''Metadata loaded'',
                   ConsoleError ''Error with playing:'', ConsoleError ''Error playing video''],
       commands := [Pause, Play, Play, Play, Play, Pause],
       unhandledRejections := 1\<rparr>"
    unfolding s3 by (simp add: playSettled_def playingExample_eq)
  finally have s4: "?s4 = playingExample\<lparr>isPlaying := False,
       pendingPlays := [FromSyncPlay],
       console := [ConsoleLog ''Video metadata loaded'', ConsoleLog ''Metadata loaded'',
                   ConsoleError ''Error with playing:'', ConsoleError ''Error playing video''],
       commands := [Pause, Play, Play, Play, Play, Pause],
       unhandledRejections := 1\<rparr>" .
  have p4: "\<not> isPlaying ?s4" unfolding s4 by simp
  have "?s5 = handle ?s4 (PlaySettled FromSyncPlay Rejected)"
    by (rule step_settled_paused [OF p4])
  also have "\<dots> = playingExample\<lparr>isPlaying := False,
       pendingPlays := [],
       console := [ConsoleLog ''Video metadata loaded'', ConsoleLog ''Metadata loaded'',
                   ConsoleError ''Error with playing:'', ConsoleError ''Error playing video'',
                   ConsoleLog ''Play failed for video 2''],
       commands := [Pause, Play, Play, Play, Play, Pause],
       unhandledRejections := 1\<rparr>"
    unfolding s4 by (simp add: playSettled_def prim_upd playingExample_eq)
  finally have s5: "?s5 = playingExample\<lparr>isPlaying := False,
       pendingPlays := [],
       console := [ConsoleLog ''Video metadata loaded'', ConsoleLog ''Metadata loaded'',
                   ConsoleError ''Error with playing:'', ConsoleError ''Error playing video'',
                   ConsoleLog ''Play failed for video 2''],
       commands := [Pause, Play, Play, Play, Play, Pause],
       unhandledRejections := 1\<rparr>" .
  have r: "run readyExample
      [PlayPauseClick, PlaySettled FromClick Rejected, PlaySettled FromSyncPlayback Rejected,
       PlaySettled FromIsPlayingEffect Rejected, PlaySettled FromSyncPlay Rejected] = ?s5"
    by (simp add: run_Cons run_Nil playingExample_step)
  have a: "\<not> isPlaying readyExample" "unhandledRejections readyExample = 0"
    by (simp_all add: readyExample_eq)
  have b: "isPlaying (step readyExample PlayPauseClick)"
    "pendingPlays (step readyExample PlayPauseClick) =
       [FromClick, FromSyncPlayback, FromIsPlayingEffect, FromSyncPlay]"
    unfolding playingExample_step [symmetric] by (simp_all add: playingExample_eq)
  show ?thesis unfolding r s5 using a b by simp
qed

text \<open>
  Claim C6 says that two calls in immediate succession, the second while the play
  request of the first is pending, end with \<open>isPlaying\<close> false and no duplicate play
  command in flight. Two calls with no render between them are closures of the same
  render: line 53 reads \<open>isPlaying = false\<close> in both. In the ready session they end with
  \<open>isPlaying\<close> true, the handler has called \<open>play()\<close> twice, both promises are pending, and
  \<open>pause()\<close> has not been called at all.
\<close>

theorem toggle_twice_same_render_plays:
  "\<not> isPlaying readyExample \<and>
   isPlaying (togglePlayTwice readyExample) \<and>
   commands (togglePlayTwice readyExample) = [Pause, Play, Play, Play, Play, Play] \<and>
   pendingPlays (togglePlayTwice readyExample) =
     [FromClick, FromClick, FromSyncPlayback, FromIsPlayingEffect, FromSyncPlay] \<and>
   commands readyExample = [Pause]"
proof -
  have h: "\<not> isPlaying readyExample" "mounted readyExample"
    "video2Ref readyExample =
       Some \<lparr>duration = Num 120, elCurrentTime = Num 0, muted = False\<rparr>"
    by (simp_all add: readyExample_eq)
  show ?thesis
    unfolding togglePlayTwice_play [OF h] by (simp add: readyExample_eq)
qed

text \<open>
  Claim C6, as the component has it, for a mounted session with a bound element and
  \<open>isPlaying\<close> false. When the second call runs in the render that follows the first (two
  clicks; its closure sees \<open>isPlaying = true\<close>), the session ends with \<open>isPlaying\<close> false, the
  play commands of the first call (one by the handler, the others by the effects) are
  followed by the pause commands of the second, and however the play requests settle
  afterwards, \<open>isPlaying\<close> stays false. When both calls run in the same render, the session
  ends with \<open>isPlaying\<close> true, the handler has issued two play commands whose promises are
  both pending, and no pause command has been issued.
\<close>

theorem toggle_play_twice:
  assumes "\<not> isPlaying s" and "mounted s" and "video2Ref s = Some el"
  shows "\<not> isPlaying (run s [PlayPauseClick, PlayPauseClick]) \<and>
         commands (run s [PlayPauseClick, PlayPauseClick]) =
           commands s @ Play # (if isLoading s then [Play] else [Play, Play, Play])
             @ [Pause, Pause] \<and>
         \<not> isPlaying (run (run s [PlayPauseClick, PlayPauseClick])
                         (map (\<lambda>p. PlaySettled (fst p) (snd p)) outs)) \<and>
         isPlaying (togglePlayTwice s) \<and>
         commands (togglePlayTwice s) =
           commands s @ Play # Play # (if isLoading s then [Play] else [Play, Play, Play]) \<and>
         pendingPlays (togglePlayTwice s) =
           pendingPlays s @ FromClick # FromClick #
             (if isLoading s then [FromIsPlayingEffect]
              else [FromSyncPlayback, FromIsPlayingEffect, FromSyncPlay])"
proof -
  let ?s1 = "step s PlayPauseClick"
  have m: "isPlaying ?s1" "mounted ?s1" "video2Ref ?s1 = Some el"
    using assms by (simp_all add: step_click_play [OF assms])
  have r: "run s [PlayPauseClick, PlayPauseClick] = step ?s1 PlayPauseClick"
    by (simp add: run_Cons run_Nil)
  have a: "\<not> isPlaying (run s [PlayPauseClick, PlayPauseClick])"
    unfolding r step_click_pause [OF m] by simp
  have c: "commands (run s [PlayPauseClick, PlayPauseClick]) =
           commands s @ Play # (if isLoading s then [Play] else [Play, Play, Play])
             @ [Pause, Pause]"
    unfolding r step_click_pause [OF m] by (simp add: step_click_play [OF assms])
  have d: "isPlaying (togglePlayTwice s) \<and>
         commands (togglePlayTwice s) =
           commands s @ Play # Play # (if isLoading s then [Play] else [Play, Play, Play]) \<and>
         pendingPlays (togglePlayTwice s) =
           pendingPlays s @ FromClick # FromClick #
             (if isLoading s then [FromIsPlayingEffect]
              else [FromSyncPlayback, FromIsPlayingEffect, FromSyncPlay])"
    unfolding togglePlayTwice_play [OF assms] by simp
  show ?thesis using a c d run_settled_not_playing [OF a] by blast
qed

theorem toggle_play_twice_witness:
  "\<not> isPlaying readyExample \<and> mounted readyExample \<and>
   \<not> isPlaying (run readyExample [PlayPauseClick, PlayPauseClick]) \<and>
   commands (run readyExample [PlayPauseClick, PlayPauseClick]) =
     [Pause, Play, Play, Play, Play, Pause, Pause] \<and>
   \<not> isPlaying (run (run readyExample [PlayPauseClick, PlayPauseClick])
      [PlaySettled FromClick Rejected, PlaySettled FromSyncPlayback Fulfilled]) \<and>
   isPlaying (togglePlayTwice readyExample)"
proof -
  have h: "\<not> isPlaying readyExample" "mounted readyExample"
    "video2Ref readyExample =
       Some \<lparr>duration = Num 120, elCurrentTime = Num 0, muted = False\<rparr>"
    by (simp_all add: readyExample_eq)
  have i: "commands readyExample = [Pause]" "\<not> isLoading readyExample"
    by (simp_all add: readyExample_eq)
  show ?thesis
    using h i
      toggle_play_twice [OF h, of "[(FromClick, Rejected), (FromSyncPlayback, Fulfilled)]"]
    by simp
qed

text \<open>
  Claim C8. In every state the component reaches from a mount with a bound element,
  \<open>isPlaying\<close> implies that a play command has been issued on the handle, hence, through
  the binding layer, to the video track and to the audio track; and the two tracks have
  received the same commands in the same order.
\<close>

theorem playing_implies_play_issued:
  "(isPlaying (run (mount (Some el)) es) \<longrightarrow>
      Play \<in> set (videoTrackCommands (run (mount (Some el)) es)) \<and>
      Play \<in> set (audioTrackCommands (run (mount (Some el)) es))) \<and>
   videoTrackCommands (run (mount (Some el)) es) = audioTrackCommands (run (mount (Some el)) es)"
proof -
  have v: "videoTrackCommands s = commands s" for s
    by (simp add: videoTrackCommands_def bindingLayer_def comp_def)
  have a: "audioTrackCommands s = commands s" for s
    by (simp add: audioTrackCommands_def bindingLayer_def comp_def)
  show ?thesis unfolding v a using run_play_issued [of el es] by simp
qed

theorem playing_implies_play_issued_witness:
  "isPlaying (run (mount (Some exampleElement)) [LoadedMetadata (Num 120), PlayPauseClick]) \<and>
   Play \<in> set (videoTrackCommands
     (run (mount (Some exampleElement)) [LoadedMetadata (Num 120), PlayPauseClick])) \<and>
   Play \<in> set (audioTrackCommands
     (run (mount (Some exampleElement)) [LoadedMetadata (Num 120), PlayPauseClick]))"
proof -
  have h: "isPlaying
     (run (mount (Some exampleElement)) [LoadedMetadata (Num 120), PlayPauseClick])"
    unfolding playingExample_def [symmetric] by (simp add: playingExample_eq)
  show ?thesis
    using h playing_implies_play_issued
      [of exampleElement "[LoadedMetadata (Num 120), PlayPauseClick]"]
    by simp
qed

section \<open>Seeking\<close>

text \<open>
  Claim C5 says that the target time of a seek is the pointer's relative position
  clamped to \<open>[0, 1]\<close>, times the duration, and that the time applied to the element is
  clamped to \<open>[0, duration]\<close>. Neither \<open>calculateNewTime\<close> nor \<open>applyTimeToVideos\<close> clamps:
  with the bar at \<open>left = 100\<close>, \<open>width = 200\<close>, the pointer at 50 and a duration of 120 the
  target is \<open>-30\<close>, and \<open>-30\<close> is what is assigned to the element and stored in
  \<open>currentTime\<close>.
\<close>

theorem seek_time_can_be_negative:
  "calculateNewTime pointerLeftOfBar readyExample = Num (- 30) \<and>
   \<not> isl (applyTimeToVideos (Num (- 30)) readyExample) \<and>
   currentTime (projr (applyTimeToVideos (Num (- 30)) readyExample)) = Num (- 30) \<and>
   last (commands (projr (applyTimeToVideos (Num (- 30)) readyExample)))
     = SetCurrentTime (Num (- 30))"
  by (simp add: calculateNewTime_def pointerLeftOfBar_def readyExample_eq
      applyTimeToVideos_def setCurrentTime_def)

text \<open>
  Claim C5, as the component has it. For a numeric pointer position \<open>x\<close>, a bar with left
  edge \<open>l\<close> and width \<open>w > 0\<close> and a finite duration \<open>d\<close>, the target time is
  \<open>((x - l) / w) * d\<close>, with no clamping; \<open>applyTimeToVideos\<close> assigns the time it is given
  to the element and stores it in \<open>currentTime\<close> as it is; and the target lies in
  \<open>[0, d]\<close> when the pointer is within the bar (\<open>l \<le> x \<le> l + w\<close>) and \<open>d \<ge> 0\<close>.
\<close>

theorem seek_time_unclamped:
  assumes "0 < w" and "longestDuration s = Num d" and "mounted s" and "video2Ref s = Some el"
  shows "calculateNewTime \<lparr>clientX = Num x, rectLeft = l, rectWidth = w\<rparr> s
           = Num ((x - l) / w * d) \<and>
         applyTimeToVideos (Num t) s =
           Inr (s\<lparr>currentTime := Num t,
                  video2Ref := Some (el\<lparr>elCurrentTime := Num t\<rparr>),
                  commands := commands s @ [SetCurrentTime (Num t)]\<rparr>) \<and>
         (l \<le> x \<and> x \<le> l + w \<and> 0 \<le> d \<longrightarrow>
            0 \<le> (x - l) / w * d \<and> (x - l) / w * d \<le> d)"
proof -
  have a: "calculateNewTime \<lparr>clientX = Num x, rectLeft = l, rectWidth = w\<rparr> s
           = Num ((x - l) / w * d)"
    using assms by (simp add: calculateNewTime_def)
  have b: "applyTimeToVideos (Num t) s =
           Inr (s\<lparr>currentTime := Num t,
                  video2Ref := Some (el\<lparr>elCurrentTime := Num t\<rparr>),
                  commands := commands s @ [SetCurrentTime (Num t)]\<rparr>)"
    using assms by (simp add: applyTimeToVideos_def setCurrentTime_def)
  have c: "0 \<le> (x - l) / w * d \<and> (x - l) / w * d \<le> d"
    if h: "l \<le> x" "x \<le> l + w" "0 \<le> d"
  proof -
    have r0: "0 \<le> (x - l) / w" using h assms(1) by simp
    have r1: "(x - l) / w \<le> 1" using h assms(1) by simp
    have "(x - l) / w * d \<le> 1 * d" using r1 h(3) by (rule mult_right_mono)
    moreover have "0 \<le> (x - l) / w * d" using r0 h(3) by (rule mult_nonneg_nonneg)
    ultimately show ?thesis by simp
  qed
  show ?thesis using a b c by blast
qed

theorem seek_time_unclamped_witness:
  "(0::real) < 200 \<and> longestDuration readyExample = Num 120 \<and> mounted readyExample \<and>
   video2Ref readyExample =
     Some \<lparr>duration = Num 120, elCurrentTime = Num 0, muted = False\<rparr> \<and>
   calculateNewTime \<lparr>clientX = Num 150, rectLeft = 100, rectWidth = 200\<rparr> readyExample
     = Num 30 \<and>
   currentTime (projr (applyTimeToVideos (Num 30) readyExample)) = Num 30 \<and>
   (0::real) \<le> (150 - 100) / 200 * 120 \<and> (150 - 100) / 200 * 120 \<le> (120::real)"
proof -
  have h: "(0::real) < 200" "longestDuration readyExample = Num 120" "mounted readyExample"
    "video2Ref readyExample =
       Some \<lparr>duration = Num 120, elCurrentTime = Num 0, muted = False\<rparr>"
    by (simp_all add: readyExample_eq)
  show ?thesis using h seek_time_unclamped [OF h, of 150 100 30] by simp
qed




text \<open>
  Claim C10. When \<open>handleSeekMouseUp\<close> (the mouse-up and touch-end handler of the seek bar)
  runs while \<open>seeking\<close> is false, nothing happens: the whole state after the step is the
  state before it, so no time is applied to the element, no play command is issued, and
  \<open>isPlaying\<close>, \<open>currentTime\<close>, \<open>isLoading\<close>, \<open>longestDuration\<close> and \<open>seeking\<close> are unchanged.
\<close>

theorem handleSeekMouseUp_not_seeking:
  "\<not> seeking s \<Longrightarrow> step s (SeekMouseUp ev) = s"
  by (simp add: step_def handleSeekMouseUp_def commit_same)

theorem handleSeekMouseUp_not_seeking_witness:
  "\<not> seeking readyExample \<and> step readyExample (SeekMouseUp pointerInside) = readyExample"
proof -
  have h: "\<not> seeking readyExample" by (simp add: readyExample_eq)
  show ?thesis using h handleSeekMouseUp_not_seeking [OF h, of pointerInside] by simp
qed

section \<open>The progress value\<close>

text \<open>
  Claim C9. \<open>watchedPercentage\<close> is exactly 0 when the duration is 0 (the division is not
  evaluated), and for a duration \<open>d > 0\<close> and a current time \<open>c\<close> with \<open>0 \<le> c \<le> d\<close> it is
  \<open>(c / d) * 100\<close>, which lies between 0 and 100.
\<close>

theorem watchedPercentage_range:
  assumes "0 \<le> c" and "c \<le> d" and "0 < d"
  shows "watchedPercentage (s\<lparr>longestDuration := Num 0\<rparr>) = Num 0 \<and>
         watchedPercentage (s\<lparr>currentTime := Num c, longestDuration := Num d\<rparr>)
           = Num (c / d * 100) \<and>
         0 \<le> c / d * 100 \<and> c / d * 100 \<le> 100"
  using assms by (simp add: watchedPercentage_def field_simps)

theorem watchedPercentage_range_witness:
  "(0::real) \<le> 30 \<and> (30::real) \<le> 120 \<and> (0::real) < 120 \<and>
   watchedPercentage (readyExample\<lparr>longestDuration := Num 0\<rparr>) = Num 0 \<and>
   watchedPercentage (readyExample\<lparr>currentTime := Num 30, longestDuration := Num 120\<rparr>)
     = Num 25"
  using watchedPercentage_range [of 30 120 readyExample] by simp

end
